theory Spec2Isabelle
  imports Main
begin

section \<open>Shared data: channels, queue names, messages\<close>

text \<open>
  \<^verbatim>\<open>enum Channel { email sms whatsapp }\<close> of the GraphQL schema. The request type
  \<^verbatim>\<open>MessageInput\<close> carries a value of this enum, so no other channel reaches the resolver.
\<close>

datatype channel = Email | Sms | Whatsapp

fun channel_name :: "channel \<Rightarrow> string" where
  "channel_name Email = ''email''"
| "channel_name Sms = ''sms''"
| "channel_name Whatsapp = ''whatsapp''"

text \<open>
  The keys of the \<^verbatim>\<open>QUEUES\<close> object (the same object in router.js and in the consumer):
  the three channels and \<^verbatim>\<open>dlq\<close>.
\<close>

datatype queue_key = Chan channel | Dlq

fun key_name :: "queue_key \<Rightarrow> string" where
  "key_name (Chan c) = channel_name c"
| "key_name Dlq = ''dlq''"

fun QUEUES :: "queue_key \<Rightarrow> string" where
  "QUEUES (Chan Email) = ''email_queue''"
| "QUEUES (Chan Sms) = ''sms_queue''"
| "QUEUES (Chan Whatsapp) = ''whatsapp_queue''"
| "QUEUES Dlq = ''dead_letter_queue''"

text \<open>The \<^verbatim>\<open>status\<close> enum of the Mongoose schema.\<close>

datatype status = Queued | Processing | Delivered | Failed

text \<open>
  The message object built by the resolver, completed by \<^verbatim>\<open>routeMessage\<close>, serialised onto
  the queue and parsed again by the consumer. \<^verbatim>\<open>retryCount\<close>, \<^verbatim>\<open>maxRetries\<close> and
  \<^verbatim>\<open>subtraceId\<close> are absent (\<open>None\<close>) until \<^verbatim>\<open>routeMessage\<close> sets them; the consumer has
  explicit defaults for the first two. Instants are milliseconds as returned by
  \<^verbatim>\<open>Date.now()\<close>; \<^verbatim>\<open>metadata\<close> is opaque.
\<close>

record queued_message =
  m_messageId :: string
  m_traceId :: string
  m_channel :: channel
  m_recipient :: string
  m_subject :: "string option"
  m_body :: string
  m_metadata :: "string option"
  m_timestamp :: nat
  m_status :: status
  m_retryCount :: "int option"
  m_maxRetries :: "int option"
  m_subtraceId :: "string option"

text \<open>One call of \<^verbatim>\<open>sendLog\<close>: the event published to the topic \<^verbatim>\<open>communication-logs\<close>.\<close>

record log_event =
  ev_service :: string
  ev_level :: string
  ev_message :: string
  ev_traceId :: "string option"
  ev_subtraceId :: "string option"
  ev_messageId :: "string option"
  ev_retryCount :: "int option"
  ev_error :: "string option"

text \<open>Decimal rendering of a number inside a template string.\<close>

definition digit_char :: "nat \<Rightarrow> char" where
  "digit_char n = ''0123456789'' ! n"

fun dec :: "nat \<Rightarrow> string" where
  "dec n = (if n < 10 then [digit_char n] else dec (n div 10) @ [digit_char (n mod 10)])"

declare dec.simps [simp del]

section \<open>Task router service (router.js, resolvers.js)\<close>

subsection \<open>Request, response, state and environment\<close>

text \<open>\<^verbatim>\<open>input MessageInput\<close>: \<^verbatim>\<open>subject\<close> and \<^verbatim>\<open>metadata\<close> are nullable.\<close>

record message_input =
  i_channel :: channel
  i_recipient :: string
  i_subject :: "string option"
  i_body :: string
  i_metadata :: "string option"

text \<open>\<^verbatim>\<open>type MessageResponse\<close>.\<close>

record response =
  success :: bool
  messageId :: "string option"
  traceId :: string
  message :: string

text \<open>The headers passed to \<^verbatim>\<open>sendToQueue\<close>.\<close>

record headers =
  x_retry_count :: int
  x_trace_id :: string
  x_subtrace_id :: string

text \<open>
  What the router can change: the Redis keys (value and instant of expiry), the messages
  accepted by the broker (queue name, body, headers, in order), the events published to
  Kafka, and the number of UUIDs drawn so far. \<open>now\<close> is the reading of \<^verbatim>\<open>Date.now()\<close>
  during the request.
\<close>

record router_state =
  cache :: "string \<rightharpoonup> (string \<times> nat)"
  queues :: "(string \<times> queued_message \<times> headers) list"
  kafka :: "log_event list"
  uuid_count :: nat
  now :: nat

text \<open>
  What the router cannot control: the hash function, the UUID generator, and whether the
  calls to Redis, RabbitMQ and Kafka succeed. \<^verbatim>\<open>sendToQueue\<close> returns true, returns
  false, or throws. A false return of the client library is back-pressure (its write
  buffer is full): the message is buffered and still sent, so it counts as enqueued,
  although the source takes the false return for a failed submission and throws. Only
  a call that throws enqueues nothing.
\<close>

datatype send_outcome = SendTrue | SendFalse | SendThrows string

record router_env =
  sha256_hex :: "string \<Rightarrow> string"
  uuidv4 :: "nat \<Rightarrow> string"
  redis_get_error :: "string option"
  redis_setEx_error :: "string option"
  send_result :: send_outcome
  kafka_send_error :: "string option"

subsection \<open>Recipient formats\<close>

text \<open>
  Strings are lists of 8-bit characters; \<^verbatim>\<open>\s\<close> is the white space of that range
  (tab, line feed, vertical tab, form feed, carriage return, space, no-break space).
\<close>

definition is_space :: "char \<Rightarrow> bool" where
  "is_space c = (of_char c \<in> {9, 10, 11, 12, 13, 32, 160 :: nat})"

definition is_digit :: "char \<Rightarrow> bool" where
  "is_digit c = (48 \<le> (of_char c :: nat) \<and> (of_char c :: nat) \<le> 57)"

definition not_space_at :: "char \<Rightarrow> bool" where
  "not_space_at c = (\<not> is_space c \<and> c \<noteq> CHR ''@'')"

text \<open>
  \<^verbatim>\<open>/^[^\s@]+@[^\s@]+\.[^\s@]+$/\<close>: a non-empty run of admissible characters, one
  \<^verbatim>\<open>@\<close>, then admissible characters with a dot that is neither the first nor the last of
  them.
\<close>

definition isValidEmail :: "string \<Rightarrow> bool" where
  "isValidEmail email =
     (let local = takeWhile not_space_at email;
          rest = dropWhile not_space_at email
      in local \<noteq> [] \<and>
         (case rest of
            [] \<Rightarrow> False
          | c # domain \<Rightarrow>
              c = CHR ''@'' \<and> list_all not_space_at domain \<and>
              CHR ''.'' \<in> set (butlast (tl domain))))"

text \<open>\<^verbatim>\<open>/^\+?[1-9]\d{1,14}$/\<close>: an optional plus, a digit from 1 to 9, then 1 to 14 digits.\<close>

definition isValidPhone :: "string \<Rightarrow> bool" where
  "isValidPhone phone =
     (let ds = (case phone of [] \<Rightarrow> [] | c # t \<Rightarrow> if c = CHR ''+'' then t else phone)
      in case ds of
           [] \<Rightarrow> False
         | d # tail \<Rightarrow>
             is_digit d \<and> d \<noteq> CHR ''0'' \<and>
             1 \<le> length tail \<and> length tail \<le> 14 \<and> list_all is_digit tail)"

subsection \<open>checkDuplicate\<close>

text \<open>The string that is hashed, and the Redis key.\<close>

definition fingerprint :: "router_env \<Rightarrow> message_input \<Rightarrow> string" where
  "fingerprint env input =
     sha256_hex env (channel_name (i_channel input) @ '':'' @ i_recipient input @ '':'' @ i_body input)"

definition dedup_key :: "router_env \<Rightarrow> message_input \<Rightarrow> string" where
  "dedup_key env input = ''dedup:'' @ fingerprint env input"

text \<open>
  \<^verbatim>\<open>redisClient.get\<close>: throws, or returns the value of a key that has not expired, or null.
  \<^verbatim>\<open>redisClient.setEx\<close>: throws, or stores the value with an expiry in seconds.
\<close>

definition redis_get :: "router_env \<Rightarrow> string \<Rightarrow> router_state \<Rightarrow> string + string option" where
  "redis_get env k w =
     (case redis_get_error env of
        Some e \<Rightarrow> Inl e
      | None \<Rightarrow>
          (case cache w k of
             None \<Rightarrow> Inr None
           | Some (v, expiry) \<Rightarrow> if now w < expiry then Inr (Some v) else Inr None))"

definition redis_setEx ::
  "router_env \<Rightarrow> string \<Rightarrow> nat \<Rightarrow> string \<Rightarrow> router_state \<Rightarrow> string + router_state" where
  "redis_setEx env k seconds v w =
     (case redis_setEx_error env of
        Some e \<Rightarrow> Inl e
      | None \<Rightarrow> Inr (w\<lparr>cache := (cache w)(k \<mapsto> (v, now w + seconds * 1000))\<rparr>))"

text \<open>
  \<^verbatim>\<open>if (exists)\<close> is JavaScript truthiness: null and the empty string are false. Every
  error inside the \<^verbatim>\<open>try\<close> ends in the \<^verbatim>\<open>catch\<close>, which returns false.
\<close>

definition checkDuplicate :: "router_env \<Rightarrow> message_input \<Rightarrow> router_state \<Rightarrow> bool \<times> router_state" where
  "checkDuplicate env input w =
     (case redis_get env (dedup_key env input) w of
        Inl e \<Rightarrow> (False, w)
      | Inr exists \<Rightarrow>
          if exists \<noteq> None \<and> exists \<noteq> Some []
          then (True, w)
          else (case redis_setEx env (dedup_key env input) 86400 ''1'' w of
                  Inl e \<Rightarrow> (False, w)
                | Inr w' \<Rightarrow> (False, w')))"

subsection \<open>routeMessage\<close>

text \<open>\<^verbatim>\<open>sendLog\<close> catches a failed publish and only reports it on the console.\<close>

definition sendLog :: "router_env \<Rightarrow> log_event \<Rightarrow> router_state \<Rightarrow> router_state" where
  "sendLog env e w =
     (case kafka_send_error env of
        Some err \<Rightarrow> w
      | None \<Rightarrow> w\<lparr>kafka := kafka w @ [e]\<rparr>)"

definition router_event :: "string \<Rightarrow> string \<Rightarrow> queued_message \<Rightarrow> string option \<Rightarrow> log_event" where
  "router_event lvl txt m err =
     \<lparr>ev_service = ''router'', ev_level = lvl, ev_message = txt,
      ev_traceId = Some (m_traceId m), ev_subtraceId = m_subtraceId m,
      ev_messageId = Some (m_messageId m), ev_retryCount = None, ev_error = err\<rparr>"

text \<open>
  \<^verbatim>\<open>QUEUES[channel]\<close> is defined for each of the three channels, so the branch
  \<^verbatim>\<open>Unknown channel\<close> is not reachable from the resolver. The result is \<open>Inl\<close> of the
  message of the error that is rethrown.
\<close>

definition routeMessage ::
  "router_env \<Rightarrow> queued_message \<Rightarrow> router_state \<Rightarrow> (string + unit) \<times> router_state" where
  "routeMessage env m w =
     (let subtraceId = ''subtrace_'' @ dec (now w);
          queueName = QUEUES (Chan (m_channel m));
          m' = m\<lparr>m_retryCount := Some 0, m_maxRetries := Some 3, m_subtraceId := Some subtraceId\<rparr>;
          hs = \<lparr>x_retry_count = 0, x_trace_id = m_traceId m, x_subtrace_id = subtraceId\<rparr>
      in case send_result env of
           SendTrue \<Rightarrow>
             (Inr (),
              sendLog env (router_event ''info'' ''Message routed to queue'' m' None)
                (w\<lparr>queues := queues w @ [(queueName, m', hs)]\<rparr>))
         | SendFalse \<Rightarrow>
             (Inl ''Failed to send message to queue'',
              sendLog env
                (router_event ''error'' ''Failed to route message'' m'
                   (Some ''Failed to send message to queue''))
                (w\<lparr>queues := queues w @ [(queueName, m', hs)]\<rparr>))
         | SendThrows e \<Rightarrow>
             (Inl e, sendLog env (router_event ''error'' ''Failed to route message'' m' (Some e)) w))"

subsection \<open>The sendMessage resolver\<close>

text \<open>
  The four checks at the head of the \<^verbatim>\<open>try\<close> block, in their order; the result is the
  message of the first error thrown. \<^verbatim>\<open>!input.subject\<close> holds for null and for the empty
  string.
\<close>

definition validateInput :: "message_input \<Rightarrow> string option" where
  "validateInput input =
     (if i_recipient input = [] \<or> i_body input = []
      then Some ''Recipient and body are required''
      else if i_channel input = Email \<and> (i_subject input = None \<or> i_subject input = Some [])
      then Some ''Subject is required for email messages''
      else if i_channel input = Email \<and> \<not> isValidEmail (i_recipient input)
      then Some ''Invalid email address''
      else if (i_channel input = Sms \<or> i_channel input = Whatsapp) \<and> \<not> isValidPhone (i_recipient input)
      then Some ''Invalid phone number format''
      else None)"

definition error_response :: "string \<Rightarrow> string \<Rightarrow> response" where
  "error_response tid err =
     \<lparr>success = False, messageId = None, traceId = tid, message = ''Error: '' @ err\<rparr>"

definition new_message :: "string \<Rightarrow> string \<Rightarrow> message_input \<Rightarrow> nat \<Rightarrow> queued_message" where
  "new_message mid tid input t =
     \<lparr>m_messageId = mid, m_traceId = tid, m_channel = i_channel input,
      m_recipient = i_recipient input, m_subject = i_subject input, m_body = i_body input,
      m_metadata = i_metadata input, m_timestamp = t, m_status = Queued,
      m_retryCount = None, m_maxRetries = None, m_subtraceId = None\<rparr>"

definition sendMessage :: "router_env \<Rightarrow> message_input \<Rightarrow> router_state \<Rightarrow> response \<times> router_state" where
  "sendMessage env input w =
     (let tid = ''trace_'' @ uuidv4 env (uuid_count w);
          w0 = w\<lparr>uuid_count := uuid_count w + 1\<rparr>
      in case validateInput input of
           Some reason \<Rightarrow> (error_response tid reason, w0)
         | None \<Rightarrow>
             (case checkDuplicate env input w0 of
                (True, w1) \<Rightarrow>
                  (\<lparr>success = False, messageId = None, traceId = tid,
                    message = ''Duplicate message detected''\<rparr>, w1)
              | (False, w1) \<Rightarrow>
                  (let mid = ''msg_'' @ uuidv4 env (uuid_count w1);
                       w2 = w1\<lparr>uuid_count := uuid_count w1 + 1\<rparr>
                   in case routeMessage env (new_message mid tid input (now w2)) w2 of
                        (Inl err, w3) \<Rightarrow> (error_response tid err, w3)
                      | (Inr u, w3) \<Rightarrow>
                          (\<lparr>success = True, messageId = Some mid, traceId = tid,
                            message = ''Message queued successfully''\<rparr>, w3))))"

section \<open>Delivery service (consumer, delivery handlers)\<close>

subsection \<open>The status store\<close>

text \<open>A document of the \<^verbatim>\<open>Message\<close> model (\<^verbatim>\<open>messageSchema\<close>).\<close>

record delivery_record =
  r_messageId :: string
  r_traceId :: string
  r_channel :: channel
  r_recipient :: string
  r_subject :: "string option"
  r_body :: string
  r_metadata :: "string option"
  r_status :: status
  r_deliveredAt :: "nat option"
  r_failedAt :: "nat option"
  r_errorMessage :: "string option"
  r_retryCount :: int
  r_createdAt :: nat
  r_updatedAt :: nat

text \<open>
  The second argument of \<^verbatim>\<open>Message.findOneAndUpdate\<close>: the fields a handler writes. A
  field that the object does not name, or names with an undefined value, is \<open>None\<close>.
\<close>

record update_doc =
  u_messageId :: string
  u_traceId :: string
  u_channel :: channel
  u_recipient :: string
  u_subject :: "string option"
  u_body :: string
  u_metadata :: "string option"
  u_status :: status
  u_deliveredAt :: "nat option"
  u_failedAt :: "nat option"
  u_errorMessage :: "string option"
  u_retryCount :: "int option"
  u_updatedAt :: nat

text \<open>
  \<^verbatim>\<open>findOneAndUpdate(filter, fields, {upsert: true, new: true})\<close> as the store documents
  it: the fields are set on the first document that matches the filter \<^verbatim>\<open>{messageId}\<close>
  and the other fields of that document stay; with no match one document is inserted,
  from the fields and the defaults of the schema (\<^verbatim>\<open>retryCount\<close> 0, \<^verbatim>\<open>createdAt\<close> now).
\<close>

definition keep :: "'a option \<Rightarrow> 'a option \<Rightarrow> 'a option" where
  "keep new old = (case new of Some v \<Rightarrow> Some v | None \<Rightarrow> old)"

definition apply_update :: "update_doc \<Rightarrow> delivery_record \<Rightarrow> delivery_record" where
  "apply_update u r =
     r\<lparr>r_messageId := u_messageId u, r_traceId := u_traceId u, r_channel := u_channel u,
       r_recipient := u_recipient u, r_subject := keep (u_subject u) (r_subject r),
       r_body := u_body u, r_metadata := keep (u_metadata u) (r_metadata r),
       r_status := u_status u,
       r_deliveredAt := keep (u_deliveredAt u) (r_deliveredAt r),
       r_failedAt := keep (u_failedAt u) (r_failedAt r),
       r_errorMessage := keep (u_errorMessage u) (r_errorMessage r),
       r_retryCount := (case u_retryCount u of Some n \<Rightarrow> n | None \<Rightarrow> r_retryCount r),
       r_updatedAt := u_updatedAt u\<rparr>"

definition insert_doc :: "update_doc \<Rightarrow> nat \<Rightarrow> delivery_record" where
  "insert_doc u t =
     \<lparr>r_messageId = u_messageId u, r_traceId = u_traceId u, r_channel = u_channel u,
      r_recipient = u_recipient u, r_subject = u_subject u, r_body = u_body u,
      r_metadata = u_metadata u, r_status = u_status u, r_deliveredAt = u_deliveredAt u,
      r_failedAt = u_failedAt u, r_errorMessage = u_errorMessage u,
      r_retryCount = (case u_retryCount u of Some n \<Rightarrow> n | None \<Rightarrow> 0),
      r_createdAt = t, r_updatedAt = u_updatedAt u\<rparr>"

fun upsert :: "update_doc \<Rightarrow> nat \<Rightarrow> delivery_record list \<Rightarrow> delivery_record list" where
  "upsert u t [] = [insert_doc u t]"
| "upsert u t (r # rs) =
     (if r_messageId r = u_messageId u then apply_update u r # rs else r # upsert u t rs)"

text \<open>\<^verbatim>\<open>Message.findOne({messageId})\<close>, as the status endpoint reads the store.\<close>

fun findOne :: "string \<Rightarrow> delivery_record list \<Rightarrow> delivery_record option" where
  "findOne mid [] = None"
| "findOne mid (r # rs) = (if r_messageId r = mid then Some r else findOne mid rs)"

definition records_of :: "string \<Rightarrow> delivery_record list \<Rightarrow> delivery_record list" where
  "records_of mid rs = filter (\<lambda>r. r_messageId r = mid) rs"

subsection \<open>State and environment of the consumer\<close>

text \<open>\<^verbatim>\<open>channel.ack(msg)\<close> and \<^verbatim>\<open>channel.nack(msg, false, requeue)\<close>.\<close>

datatype broker_action = Ack | Nack bool

text \<open>
  What the delivery service changes: the documents of the store, the acknowledgements
  sent to the broker, the events published to Kafka, the delays awaited with
  \<^verbatim>\<open>setTimeout\<close> (in order), the clock those delays advance, and how many random numbers
  and store calls were made so far.
\<close>

record delivery_state =
  db :: "delivery_record list"
  broker :: "broker_action list"
  published :: "log_event list"
  timers :: "nat list"
  clock :: nat
  random_count :: nat
  db_count :: nat

text \<open>
  What it cannot control: whether the n-th \<^verbatim>\<open>Math.random()\<close> falls below the failure rate
  0.05, whether the n-th call of the store throws, and whether Kafka accepts an event.
\<close>

record delivery_env =
  random_fails :: "nat \<Rightarrow> bool"
  db_error :: "nat \<Rightarrow> string option"
  publish_error :: "string option"

datatype handler_result = DeliverySucceeded string nat | DeliveryFailed string

type_synonym handler =
  "queued_message \<Rightarrow> delivery_state \<Rightarrow> (string + handler_result) \<times> delivery_state"

definition sleep :: "nat \<Rightarrow> delivery_state \<Rightarrow> delivery_state" where
  "sleep delay w = w\<lparr>timers := timers w @ [delay], clock := clock w + delay\<rparr>"

definition publish :: "delivery_env \<Rightarrow> log_event \<Rightarrow> delivery_state \<Rightarrow> delivery_state" where
  "publish env e w =
     (case publish_error env of
        Some err \<Rightarrow> w
      | None \<Rightarrow> w\<lparr>published := published w @ [e]\<rparr>)"

definition findOneAndUpdate ::
  "delivery_env \<Rightarrow> update_doc \<Rightarrow> delivery_state \<Rightarrow> (string + unit) \<times> delivery_state" where
  "findOneAndUpdate env u w =
     (case db_error env (db_count w) of
        Some e \<Rightarrow> (Inl e, w\<lparr>db_count := db_count w + 1\<rparr>)
      | None \<Rightarrow> (Inr (), w\<lparr>db := upsert u (clock w) (db w), db_count := db_count w + 1\<rparr>))"

subsection \<open>Delivery handlers\<close>

definition simulateDelivery ::
  "delivery_env \<Rightarrow> channel \<Rightarrow> nat \<Rightarrow> delivery_state \<Rightarrow> (string + unit) \<times> delivery_state" where
  "simulateDelivery env ch delay w =
     (let w1 = sleep delay w;
          w2 = w1\<lparr>random_count := random_count w1 + 1\<rparr>
      in if random_fails env (random_count w1)
         then (Inl (''Simulated '' @ channel_name ch @ '' delivery failure''), w2)
         else (Inr (), w2))"

text \<open>
  The object written on success and the object written in the \<^verbatim>\<open>catch\<close> block. Only the
  email handler names \<^verbatim>\<open>subject\<close>; \<^verbatim>\<open>message.retryCount || 0\<close> is 0 for an absent count.
\<close>

definition delivered_doc :: "channel \<Rightarrow> queued_message \<Rightarrow> nat \<Rightarrow> update_doc" where
  "delivered_doc ch m t =
     \<lparr>u_messageId = m_messageId m, u_traceId = m_traceId m, u_channel = ch,
      u_recipient = m_recipient m, u_subject = (if ch = Email then m_subject m else None),
      u_body = m_body m, u_metadata = m_metadata m, u_status = Delivered,
      u_deliveredAt = Some t, u_failedAt = None, u_errorMessage = None,
      u_retryCount = None, u_updatedAt = t\<rparr>"

definition failed_doc :: "channel \<Rightarrow> queued_message \<Rightarrow> string \<Rightarrow> nat \<Rightarrow> update_doc" where
  "failed_doc ch m err t =
     \<lparr>u_messageId = m_messageId m, u_traceId = m_traceId m, u_channel = ch,
      u_recipient = m_recipient m, u_subject = (if ch = Email then m_subject m else None),
      u_body = m_body m, u_metadata = m_metadata m, u_status = Failed,
      u_deliveredAt = None, u_failedAt = Some t, u_errorMessage = Some err,
      u_retryCount = Some (case m_retryCount m of Some n \<Rightarrow> n | None \<Rightarrow> 0),
      u_updatedAt = t\<rparr>"

text \<open>
  The \<^verbatim>\<open>catch\<close> block of a handler: it stores the failure and returns
  \<^verbatim>\<open>{success: false, error}\<close>; the handler throws only when this store call throws.
\<close>

definition store_failure ::
  "delivery_env \<Rightarrow> channel \<Rightarrow> queued_message \<Rightarrow> string \<Rightarrow> delivery_state
     \<Rightarrow> (string + handler_result) \<times> delivery_state" where
  "store_failure env ch m err w =
     (case findOneAndUpdate env (failed_doc ch m err (clock w)) w of
        (Inl e, w') \<Rightarrow> (Inl e, w')
      | (Inr u, w') \<Rightarrow> (Inr (DeliveryFailed err), w'))"

text \<open>
  The three handlers are the same code up to the channel literal, the simulated latency
  and the \<^verbatim>\<open>subject\<close> field; \<open>handleDelivery\<close> is that code.
\<close>

definition handleDelivery :: "delivery_env \<Rightarrow> channel \<Rightarrow> nat \<Rightarrow> handler" where
  "handleDelivery env ch latency m w =
     (case simulateDelivery env ch latency w of
        (Inl err, w1) \<Rightarrow> store_failure env ch m err w1
      | (Inr u, w1) \<Rightarrow>
          (case findOneAndUpdate env (delivered_doc ch m (clock w1)) w1 of
             (Inl err, w2) \<Rightarrow> store_failure env ch m err w2
           | (Inr u', w2) \<Rightarrow> (Inr (DeliverySucceeded (m_messageId m) (clock w2)), w2)))"

definition handleEmailDelivery :: "delivery_env \<Rightarrow> handler" where
  "handleEmailDelivery env = handleDelivery env Email 500"

definition handleSMSDelivery :: "delivery_env \<Rightarrow> handler" where
  "handleSMSDelivery env = handleDelivery env Sms 300"

definition handleWhatsAppDelivery :: "delivery_env \<Rightarrow> handler" where
  "handleWhatsAppDelivery env = handleDelivery env Whatsapp 400"

text \<open>The \<^verbatim>\<open>HANDLERS\<close> object has no entry for the key \<^verbatim>\<open>dlq\<close>.\<close>

fun HANDLERS :: "delivery_env \<Rightarrow> queue_key \<Rightarrow> handler option" where
  "HANDLERS env (Chan Email) = Some (handleEmailDelivery env)"
| "HANDLERS env (Chan Sms) = Some (handleSMSDelivery env)"
| "HANDLERS env (Chan Whatsapp) = Some (handleWhatsAppDelivery env)"
| "HANDLERS env Dlq = None"

subsection \<open>deliverWithRetry\<close>

definition delays :: "nat list" where
  "delays = [1000, 2000, 4000]"

text \<open>
  \<^verbatim>\<open>delays[retryCount] || delays[delays.length - 1]\<close>: an index outside the array reads
  undefined, and the last delay is taken.
\<close>

definition backoff :: "int \<Rightarrow> nat" where
  "backoff retryCount =
     (if 0 \<le> retryCount \<and> nat retryCount < length delays
      then delays ! nat retryCount
      else delays ! (length delays - 1))"

text \<open>
  The recursion retries only when the handler throws. The message object is mutated
  (\<^verbatim>\<open>message.retryCount = retryCount + 1\<close>), so it is returned with the result.
\<close>

function deliverWithRetry ::
  "handler \<Rightarrow> queued_message \<Rightarrow> int \<Rightarrow> int \<Rightarrow> delivery_state
     \<Rightarrow> (string + handler_result) \<times> queued_message \<times> delivery_state" where
  "deliverWithRetry h m retryCount maxRetries w =
     (case h m w of
        (Inr result, w1) \<Rightarrow> (Inr result, m, w1)
      | (Inl err, w1) \<Rightarrow>
          if retryCount < maxRetries
          then deliverWithRetry h (m\<lparr>m_retryCount := Some (retryCount + 1)\<rparr>)
                 (retryCount + 1) maxRetries (sleep (backoff retryCount) w1)
          else (Inl err, m, w1))"
  by pat_completeness auto
termination
  by (relation "measure (\<lambda>(h, m, retryCount, maxRetries, w). nat (maxRetries - retryCount))") auto

declare deliverWithRetry.simps [simp del]

subsection \<open>handleDeliveryError and processMessage\<close>

definition delivery_event ::
  "string \<Rightarrow> string \<Rightarrow> queued_message option \<Rightarrow> string option \<Rightarrow> int option \<Rightarrow> string option
     \<Rightarrow> log_event" where
  "delivery_event lvl txt mo sub rc err =
     \<lparr>ev_service = ''delivery'', ev_level = lvl, ev_message = txt,
      ev_traceId = map_option m_traceId mo, ev_subtraceId = sub,
      ev_messageId = map_option m_messageId mo, ev_retryCount = rc, ev_error = err\<rparr>"

text \<open>
  The destructuring \<^verbatim>\<open>{ retryCount = 0, maxRetries = 3 } = message || {}\<close>: the defaults
  apply to an absent field and to an absent message.
\<close>

definition retryCount_of :: "queued_message option \<Rightarrow> int" where
  "retryCount_of mo = (case mo of None \<Rightarrow> 0 | Some m \<Rightarrow> (case m_retryCount m of None \<Rightarrow> 0 | Some n \<Rightarrow> n))"

definition maxRetries_of :: "queued_message option \<Rightarrow> int" where
  "maxRetries_of mo = (case mo of None \<Rightarrow> 3 | Some m \<Rightarrow> (case m_maxRetries m of None \<Rightarrow> 3 | Some n \<Rightarrow> n))"

definition nack :: "bool \<Rightarrow> delivery_state \<Rightarrow> delivery_state" where
  "nack requeue w = w\<lparr>broker := broker w @ [Nack requeue]\<rparr>"

definition ack :: "delivery_state \<Rightarrow> delivery_state" where
  "ack w = w\<lparr>broker := broker w @ [Ack]\<rparr>"

definition handleDeliveryError ::
  "delivery_env \<Rightarrow> queued_message option \<Rightarrow> queue_key \<Rightarrow> string \<Rightarrow> delivery_state \<Rightarrow> delivery_state" where
  "handleDeliveryError env mo channelType err w =
     (let retryCount = retryCount_of mo;
          maxRetries = maxRetries_of mo;
          w1 = publish env
                 (delivery_event ''error'' ''Message delivery failed'' mo None (Some retryCount) (Some err)) w
      in if retryCount \<ge> maxRetries
         then nack False
                (publish env
                   (delivery_event ''error'' ''Max retries exceeded, moved to DLQ'' mo None None None) w1)
         else nack True w1)"

text \<open>
  The body of a queue message: \<^verbatim>\<open>JSON.parse\<close> throws (with the given text) or yields the
  message object.
\<close>

datatype content = Malformed string | Json queued_message

definition processMessage ::
  "delivery_env \<Rightarrow> queue_key \<Rightarrow> content \<Rightarrow> delivery_state \<Rightarrow> delivery_state" where
  "processMessage env channelType body w =
     (case body of
        Malformed e \<Rightarrow> handleDeliveryError env None channelType e w
      | Json m \<Rightarrow>
          (let retryCount = retryCount_of (Some m);
               maxRetries = maxRetries_of (Some m);
               subtraceId = ''subtrace_'' @ dec (clock w);
               w1 = publish env
                      (delivery_event ''info'' ''Started message delivery'' (Some m)
                         (Some subtraceId) (Some retryCount) None) w
           in case HANDLERS env channelType of
                None \<Rightarrow>
                  handleDeliveryError env (Some m) channelType
                    (''No handler found for channel: '' @ key_name channelType) w1
              | Some h \<Rightarrow>
                  (case deliverWithRetry h m retryCount maxRetries w1 of
                     (Inl err, m', w2) \<Rightarrow> handleDeliveryError env (Some m') channelType err w2
                   | (Inr (DeliverySucceeded mid t), m', w2) \<Rightarrow>
                       publish env
                         (delivery_event ''info'' ''Message delivered successfully'' (Some m)
                            (Some subtraceId) None None) (ack w2)
                   | (Inr (DeliveryFailed err), m', w2) \<Rightarrow>
                       handleDeliveryError env (Some m') channelType
                         (if err = [] then ''Delivery failed'' else err) w2)))"

subsection \<open>The broker's redelivery\<close>

text \<open>
  A message rejected with \<^verbatim>\<open>requeue = true\<close> goes back to its queue with the same body
  and is delivered to the consumer again; any other acknowledgement removes it from the
  queue. \<open>consume n\<close> follows one queue message through at most \<open>n\<close> deliveries.
\<close>

definition requeued :: "delivery_state \<Rightarrow> bool" where
  "requeued w = (broker w \<noteq> [] \<and> last (broker w) = Nack True)"

fun consume :: "nat \<Rightarrow> delivery_env \<Rightarrow> queue_key \<Rightarrow> content \<Rightarrow> delivery_state \<Rightarrow> delivery_state" where
  "consume 0 env channelType body w = w"
| "consume (Suc n) env channelType body w =
     (let w' = processMessage env channelType body w
      in if requeued w' then consume n env channelType body w' else w')"

subsection \<open>initializeConsumers\<close>

text \<open>
  \<^verbatim>\<open>Object.entries(QUEUES)\<close> in the order of the object literal, and the keys for which the
  loop of \<^verbatim>\<open>initializeConsumers\<close> starts a consumer: it skips \<^verbatim>\<open>dlq\<close>. A consumer
  passes its own key to \<^verbatim>\<open>processMessage\<close> as \<^verbatim>\<open>channelType\<close>, so these are the only keys
  that \<^verbatim>\<open>processMessage\<close> is called with.
\<close>

definition QUEUES_keys :: "queue_key list" where
  "QUEUES_keys = [Chan Email, Chan Sms, Chan Whatsapp, Dlq]"

definition consumer_keys :: "queue_key list" where
  "consumer_keys = filter (\<lambda>channelType. channelType \<noteq> Dlq) QUEUES_keys"

section \<open>Notions used by the properties\<close>

text \<open>
  The fingerprint of a request is reserved when its Redis key holds a non-empty value
  that has not expired: what \<^verbatim>\<open>redisClient.get\<close> then returns is truthy.
\<close>

definition reserved :: "router_env \<Rightarrow> message_input \<Rightarrow> router_state \<Rightarrow> bool" where
  "reserved env input w =
     (case cache w (dedup_key env input) of
        None \<Rightarrow> False
      | Some (v, expiry) \<Rightarrow> now w < expiry \<and> v \<noteq> [])"

text \<open>The terminal statuses, and the status stored for a message id.\<close>

fun terminal :: "status \<Rightarrow> bool" where
  "terminal Delivered = True"
| "terminal Failed = True"
| "terminal Queued = False"
| "terminal Processing = False"

definition status_of :: "string \<Rightarrow> delivery_record list \<Rightarrow> status option" where
  "status_of mid rs = map_option r_status (findOne mid rs)"


subsection \<open>Concrete requests, states and environments\<close>

text \<open>
  A router environment with a given broker outcome and Redis read error; the identity
  stands for the hash function and the decimal rendering of the draw number for the UUID
  generator.
\<close>

definition router_env_with :: "send_outcome \<Rightarrow> string option \<Rightarrow> router_env" where
  "router_env_with sent get_err =
     \<lparr>sha256_hex = (\<lambda>s. s), uuidv4 = (\<lambda>n. dec n), redis_get_error = get_err,
      redis_setEx_error = None, send_result = sent, kafka_send_error = None\<rparr>"

definition fresh_router :: router_state where
  "fresh_router = \<lparr>cache = Map.empty, queues = [], kafka = [], uuid_count = 0, now = 1000\<rparr>"

definition email_input :: message_input where
  "email_input = \<lparr>i_channel = Email, i_recipient = ''a@b.com'', i_subject = Some ''Hi'',
     i_body = ''x'', i_metadata = None\<rparr>"

definition email_input_no_subject :: message_input where
  "email_input_no_subject = email_input\<lparr>i_subject := None\<rparr>"

definition sms_input :: message_input where
  "sms_input = \<lparr>i_channel = Sms, i_recipient = ''not-a-phone'', i_subject = None,
     i_body = ''x'', i_metadata = None\<rparr>"

text \<open>The router after \<open>email_input\<close> was accepted at instant 1000.\<close>

definition reserved_router :: router_state where
  "reserved_router = fresh_router\<lparr>cache := [''dedup:email:a@b.com:x'' \<mapsto> (''1'', 86401000)]\<rparr>"

text \<open>Two requests that differ in recipient and body and agree on the hashed string.\<close>

definition colon_input_1 :: message_input where
  "colon_input_1 = \<lparr>i_channel = Email, i_recipient = ''a:b'', i_subject = Some ''Hi'',
     i_body = ''c'', i_metadata = None\<rparr>"

definition colon_input_2 :: message_input where
  "colon_input_2 = \<lparr>i_channel = Email, i_recipient = ''a'', i_subject = Some ''Hi'',
     i_body = ''b:c'', i_metadata = None\<rparr>"

text \<open>The message that the router enqueues for \<open>email_input\<close>, and an idle consumer.\<close>

definition routed_message :: queued_message where
  "routed_message = \<lparr>m_messageId = ''msg_1'', m_traceId = ''trace_0'', m_channel = Email,
      m_recipient = ''a@b.com'', m_subject = Some ''Hi'', m_body = ''x'',
      m_metadata = None, m_timestamp = 1000, m_status = Queued,
      m_retryCount = Some 0, m_maxRetries = Some 3, m_subtraceId = Some ''subtrace_1000''\<rparr>"

definition idle_consumer :: delivery_state where
  "idle_consumer = \<lparr>db = [], broker = [], published = [], timers = [], clock = 0,
     random_count = 0, db_count = 0\<rparr>"

text \<open>
  The store and Kafka work in both environments; the simulated delivery fails on every
  attempt in the first and on the first attempt only in the second.
\<close>

definition env_all_fail :: delivery_env where
  "env_all_fail = \<lparr>random_fails = (\<lambda>n. True), db_error = (\<lambda>n. None), publish_error = None\<rparr>"

definition env_fail_once :: delivery_env where
  "env_fail_once = \<lparr>random_fails = (\<lambda>n. n = 0), db_error = (\<lambda>n. None), publish_error = None\<rparr>"


definition env_first_write_throws :: delivery_env where
  "env_first_write_throws = \<lparr>random_fails = (\<lambda>n. False),
     db_error = (\<lambda>n. if n = 0 then Some ''write failed'' else None), publish_error = None\<rparr>"

text \<open>The delivery action fails on every attempt and every call of the store throws.\<close>

definition env_store_down :: delivery_env where
  "env_store_down = \<lparr>random_fails = (\<lambda>n. True), db_error = (\<lambda>n. Some ''store down''),
     publish_error = None\<rparr>"

definition after_failure :: delivery_state where
  "after_failure = processMessage env_fail_once (Chan Email) (Json routed_message) idle_consumer"

section \<open>Properties of the router\<close>

subsection \<open>Auxiliary facts\<close>

lemma validateInput_cases:
  "validateInput input = None \<or> validateInput input = Some ''Recipient and body are required''
   \<or> validateInput input = Some ''Subject is required for email messages''
   \<or> validateInput input = Some ''Invalid email address''
   \<or> validateInput input = Some ''Invalid phone number format''"
  by (simp add: validateInput_def)

lemma sendMessage_invalid:
  assumes "validateInput input = Some reason"
  shows "sendMessage env input w =
           (error_response (''trace_'' @ uuidv4 env (uuid_count w)) reason,
            w\<lparr>uuid_count := uuid_count w + 1\<rparr>)"
  using assms by (simp add: sendMessage_def Let_def)

lemma checkDuplicate_reserved:
  assumes "redis_get_error env = None" "reserved env input w"
  shows "checkDuplicate env input w = (True, w)"
  using assms
  by (auto simp: checkDuplicate_def redis_get_def reserved_def split: option.splits)

lemma checkDuplicate_fresh:
  assumes "redis_get_error env = None" "redis_setEx_error env = None" "\<not> reserved env input w"
  shows "checkDuplicate env input w =
           (False, w\<lparr>cache := (cache w)(dedup_key env input \<mapsto> (''1'', now w + 86400000))\<rparr>)"
  using assms
  by (auto simp: checkDuplicate_def redis_get_def redis_setEx_def reserved_def
           split: option.splits)

lemma sendMessage_reserved:
  assumes "validateInput input = None"
      and "redis_get_error env = None"
      and "reserved env input w"
  shows "fst (sendMessage env input w) =
           \<lparr>success = False, messageId = None,
            traceId = ''trace_'' @ uuidv4 env (uuid_count w),
            message = ''Duplicate message detected''\<rparr> \<and>
         queues (snd (sendMessage env input w)) = queues w \<and>
         cache (snd (sendMessage env input w)) = cache w \<and>
         kafka (snd (sendMessage env input w)) = kafka w \<and>
         uuid_count (snd (sendMessage env input w)) = uuid_count w + 1"
proof -
  let ?w0 = "w\<lparr>uuid_count := uuid_count w + 1\<rparr>"
  have "reserved env input ?w0"
    using assms(3) by (auto simp: reserved_def split: option.splits)
  then have "checkDuplicate env input ?w0 = (True, ?w0)"
    using assms(2) by (rule checkDuplicate_reserved [rotated])
  then show ?thesis
    using assms(1) by (simp add: sendMessage_def Let_def)
qed

lemma email_input_key:
  "dedup_key (router_env_with sent get_err) email_input = ''dedup:email:a@b.com:x''"
  by (simp add: dedup_key_def fingerprint_def router_env_with_def email_input_def)

lemma isValidEmail_sample: "isValidEmail ''a@b.com''"
  by (simp add: isValidEmail_def not_space_at_def is_space_def)

lemma email_input_valid: "validateInput email_input = None"
  by (simp add: validateInput_def email_input_def isValidEmail_sample)

lemma router_env_with_simps:
  "redis_get_error (router_env_with sent get_err) = get_err"
  "redis_setEx_error (router_env_with sent get_err) = None"
  "send_result (router_env_with sent get_err) = sent"
  "uuidv4 (router_env_with sent get_err) 0 = ''0''"
  by (simp_all add: router_env_with_def dec.simps digit_char_def)

lemma sample_router_simps:
  "queues fresh_router = []" "kafka fresh_router = []" "cache fresh_router = Map.empty"
  "uuid_count fresh_router = 0" "now fresh_router = 1000"
  "queues reserved_router = []" "uuid_count reserved_router = 0" "now reserved_router = 1000"
  "cache reserved_router = [''dedup:email:a@b.com:x'' \<mapsto> (''1'', 86401000)]"
  by (simp_all add: fresh_router_def reserved_router_def)

subsection \<open>The recipient formats as languages\<close>

text \<open>
  The two format checks accept exactly the strings that the regular expressions of the
  source describe: local part, \<^verbatim>\<open>@\<close>, and a domain of two non-empty parts around a dot,
  all of admissible characters; and an optional plus, a digit that is not 0, and 1 to 14
  digits.
\<close>

lemma in_butlast_tl:
  "x \<in> set (butlast (tl d)) \<longleftrightarrow> (\<exists>b c. d = b @ x # c \<and> b \<noteq> [] \<and> c \<noteq> [])"
proof
  assume "x \<in> set (butlast (tl d))"
  then obtain u v where uv: "butlast (tl d) = u @ x # v"
    by (meson split_list)
  then have "tl d \<noteq> []" by auto
  then have "tl d = butlast (tl d) @ [last (tl d)]" by simp
  moreover have "d \<noteq> []" using \<open>tl d \<noteq> []\<close> by auto
  then have "d = hd d # tl d" by simp
  ultimately have "d = (hd d # u) @ x # (v @ [last (tl d)])"
    using uv by (metis append_Cons append_assoc)
  then show "\<exists>b c. d = b @ x # c \<and> b \<noteq> [] \<and> c \<noteq> []"
    by blast
next
  assume "\<exists>b c. d = b @ x # c \<and> b \<noteq> [] \<and> c \<noteq> []"
  then obtain b c where d: "d = b @ x # c" and "b \<noteq> []" "c \<noteq> []" by blast
  then obtain b0 bs where b: "b = b0 # bs" by (cases b) auto
  from \<open>c \<noteq> []\<close> have "butlast (tl d) = bs @ x # butlast c"
    by (simp add: d b butlast_append)
  then show "x \<in> set (butlast (tl d))" by simp
qed

lemma isValidEmail_iff:
  "isValidEmail s \<longleftrightarrow>
     (\<exists>a b c. s = a @ ''@'' @ b @ ''.'' @ c \<and> a \<noteq> [] \<and> b \<noteq> [] \<and> c \<noteq> [] \<and>
        list_all not_space_at a \<and> list_all not_space_at b \<and> list_all not_space_at c)"
proof
  assume v: "isValidEmail s"
  let ?a = "takeWhile not_space_at s"
  from v obtain d where r: "dropWhile not_space_at s = CHR ''@'' # d" and a: "?a \<noteq> []"
    and ad: "list_all not_space_at d" and dot: "CHR ''.'' \<in> set (butlast (tl d))"
    by (auto simp: isValidEmail_def Let_def split: list.splits)
  from dot obtain b c where d: "d = b @ CHR ''.'' # c" "b \<noteq> []" "c \<noteq> []"
    unfolding in_butlast_tl by blast
  have "s = ?a @ dropWhile not_space_at s" by simp
  with r d have "s = ?a @ ''@'' @ b @ ''.'' @ c" by simp
  moreover have "list_all not_space_at ?a"
    by (simp add: list_all_iff) (meson set_takeWhileD)
  moreover from ad d have "list_all not_space_at b" "list_all not_space_at c" by simp_all
  ultimately show "\<exists>a b c. s = a @ ''@'' @ b @ ''.'' @ c \<and> a \<noteq> [] \<and> b \<noteq> [] \<and> c \<noteq> [] \<and>
        list_all not_space_at a \<and> list_all not_space_at b \<and> list_all not_space_at c"
    using a d by blast
next
  assume "\<exists>a b c. s = a @ ''@'' @ b @ ''.'' @ c \<and> a \<noteq> [] \<and> b \<noteq> [] \<and> c \<noteq> [] \<and>
        list_all not_space_at a \<and> list_all not_space_at b \<and> list_all not_space_at c"
  then obtain a b c where s: "s = a @ CHR ''@'' # (b @ CHR ''.'' # c)" and ne: "a \<noteq> []" "b \<noteq> []" "c \<noteq> []"
    and ok: "list_all not_space_at a" "list_all not_space_at b" "list_all not_space_at c"
    by auto
  have at: "\<not> not_space_at CHR ''@''" by (simp add: not_space_at_def)
  have dotok: "not_space_at CHR ''.''" by (simp add: not_space_at_def is_space_def)
  from ok(1) at have t: "takeWhile not_space_at s = a"
    unfolding s by (simp add: list_all_iff takeWhile_tail)
  from ok(1) at have dr: "dropWhile not_space_at s = CHR ''@'' # (b @ CHR ''.'' # c)"
    unfolding s by (simp add: list_all_iff dropWhile_append3)
  have "CHR ''.'' \<in> set (butlast (tl (b @ CHR ''.'' # c)))"
    unfolding in_butlast_tl using ne by blast
  with t dr ne ok dotok show "isValidEmail s"
    by (simp add: isValidEmail_def Let_def)
qed

lemma isValidPhone_iff:
  "isValidPhone s \<longleftrightarrow>
     (\<exists>p d ds. s = p @ d # ds \<and> (p = [] \<or> p = ''+'') \<and> is_digit d \<and> d \<noteq> CHR ''0'' \<and>
        1 \<le> length ds \<and> length ds \<le> 14 \<and> list_all is_digit ds)"
proof -
  have plus: "\<not> is_digit CHR ''+''" by (simp add: is_digit_def)
  show ?thesis
  proof (cases s)
    case Nil
    then show ?thesis by (simp add: isValidPhone_def)
  next
    case (Cons c t)
    show ?thesis
    proof (cases "c = CHR ''+''")
      case True
      with Cons plus show ?thesis
        by (auto simp: isValidPhone_def Let_def Cons_eq_append_conv split: list.splits)
    next
      case False
      with Cons show ?thesis
        by (auto simp: isValidPhone_def Let_def Cons_eq_append_conv split: list.splits)
    qed
  qed
qed

subsection \<open>Validation errors\<close>

text \<open>
  C7: a request with an empty recipient or body, an email request without subject or
  with a recipient that is not an email address, or an sms or whatsapp request with a
  recipient that is not a phone number, is answered with \<^verbatim>\<open>success: false\<close>, a null
  \<^verbatim>\<open>messageId\<close> and the text \<^verbatim>\<open>Error:\<close> followed by the non-empty reason of the failed
  check; the Redis keys, the queues and the published events are unchanged.
\<close>

theorem sendMessage_validation_error:
  assumes "i_recipient input = [] \<or> i_body input = []
           \<or> (i_channel input = Email \<and> (i_subject input = None \<or> i_subject input = Some []))
           \<or> (i_channel input = Email \<and> \<not> isValidEmail (i_recipient input))
           \<or> ((i_channel input = Sms \<or> i_channel input = Whatsapp) \<and> \<not> isValidPhone (i_recipient input))"
  shows "\<exists>reason.
           validateInput input = Some reason \<and> reason \<noteq> [] \<and>
           fst (sendMessage env input w) =
             \<lparr>success = False, messageId = None,
              traceId = ''trace_'' @ uuidv4 env (uuid_count w),
              message = ''Error: '' @ reason\<rparr> \<and>
           cache (snd (sendMessage env input w)) = cache w \<and>
           queues (snd (sendMessage env input w)) = queues w \<and>
           kafka (snd (sendMessage env input w)) = kafka w"
proof -
  from assms have "validateInput input \<noteq> None"
    by (auto simp: validateInput_def)
  then obtain reason where r: "validateInput input = Some reason"
    by blast
  with validateInput_cases [of input] have "reason \<noteq> []"
    by auto
  with r show ?thesis
    by (simp add: sendMessage_invalid error_response_def)
qed

text \<open>The scenario of the specification: an sms request to \<^verbatim>\<open>not-a-phone\<close>.\<close>

theorem sendMessage_validation_error_witness:
  "\<not> isValidPhone (i_recipient sms_input) \<and>
   fst (sendMessage (router_env_with SendTrue None) sms_input fresh_router) =
     \<lparr>success = False, messageId = None, traceId = ''trace_0'',
      message = ''Error: Invalid phone number format''\<rparr> \<and>
   cache (snd (sendMessage (router_env_with SendTrue None) sms_input fresh_router)) = Map.empty \<and>
   queues (snd (sendMessage (router_env_with SendTrue None) sms_input fresh_router)) = [] \<and>
   kafka (snd (sendMessage (router_env_with SendTrue None) sms_input fresh_router)) = []"
proof -
  let ?env = "router_env_with SendTrue None"
  have h: "\<not> isValidPhone (i_recipient sms_input)"
    by (simp add: sms_input_def isValidPhone_def is_digit_def)
  have v: "validateInput sms_input = Some ''Invalid phone number format''"
    using h by (simp add: validateInput_def sms_input_def)
  have H: "i_recipient sms_input = [] \<or> i_body sms_input = []
           \<or> (i_channel sms_input = Email \<and> (i_subject sms_input = None \<or> i_subject sms_input = Some []))
           \<or> (i_channel sms_input = Email \<and> \<not> isValidEmail (i_recipient sms_input))
           \<or> ((i_channel sms_input = Sms \<or> i_channel sms_input = Whatsapp)
                \<and> \<not> isValidPhone (i_recipient sms_input))"
    using h by (simp add: sms_input_def)
  from sendMessage_validation_error [OF H, of ?env fresh_router]
  obtain reason where
    R: "validateInput sms_input = Some reason" and
    F: "fst (sendMessage ?env sms_input fresh_router) =
          \<lparr>success = False, messageId = None,
           traceId = ''trace_'' @ uuidv4 ?env (uuid_count fresh_router),
           message = ''Error: '' @ reason\<rparr>" and
    C: "cache (snd (sendMessage ?env sms_input fresh_router)) = cache fresh_router" and
    Q: "queues (snd (sendMessage ?env sms_input fresh_router)) = queues fresh_router" and
    K: "kafka (snd (sendMessage ?env sms_input fresh_router)) = kafka fresh_router"
    by blast
  from R v have "reason = ''Invalid phone number format''"
    by simp
  with h F C Q K show ?thesis
    by (simp add: sample_router_simps router_env_with_simps)
qed

subsection \<open>Duplicates\<close>

text \<open>
  C6, as the code has it: a request that passes the validation and whose fingerprint is
  reserved, when the Redis read succeeds, gets \<^verbatim>\<open>success: false\<close>, a null \<^verbatim>\<open>messageId\<close>,
  the trace id generated for this request and the text \<^verbatim>\<open>Duplicate message detected\<close>;
  nothing is enqueued and no Redis key changes.
\<close>

theorem sendMessage_duplicate:
  assumes "validateInput input = None"
      and "redis_get_error env = None"
      and "reserved env input w"
  shows "fst (sendMessage env input w) =
           \<lparr>success = False, messageId = None,
            traceId = ''trace_'' @ uuidv4 env (uuid_count w),
            message = ''Duplicate message detected''\<rparr> \<and>
         queues (snd (sendMessage env input w)) = queues w \<and>
         cache (snd (sendMessage env input w)) = cache w \<and>
         uuid_count (snd (sendMessage env input w)) = uuid_count w + 1"
  using sendMessage_reserved [OF assms] by simp

theorem sendMessage_duplicate_witness:
  "validateInput email_input = None \<and>
   redis_get_error (router_env_with SendTrue None) = None \<and>
   reserved (router_env_with SendTrue None) email_input reserved_router \<and>
   fst (sendMessage (router_env_with SendTrue None) email_input reserved_router) =
     \<lparr>success = False, messageId = None, traceId = ''trace_0'',
      message = ''Duplicate message detected''\<rparr> \<and>
   queues (snd (sendMessage (router_env_with SendTrue None) email_input reserved_router)) = []"
proof -
  have g: "redis_get_error (router_env_with SendTrue None) = None"
    by (simp add: router_env_with_simps)
  have r: "reserved (router_env_with SendTrue None) email_input reserved_router"
    by (simp add: reserved_def email_input_key sample_router_simps)
  from sendMessage_duplicate [OF email_input_valid g r] email_input_valid g r
  show ?thesis
    by (simp add: sample_router_simps router_env_with_simps)
qed

text \<open>
  The claim as stated fails for a reserved fingerprint in two ways. The subject is not
  part of the fingerprint: the request without subject has the reserved fingerprint and
  is answered with the validation error, not with the duplicate text. And when the Redis
  read throws, the reserved request is enqueued.
\<close>

theorem sendMessage_duplicate_counterexample:
  "reserved (router_env_with SendTrue None) email_input_no_subject reserved_router \<and>
   message (fst (sendMessage (router_env_with SendTrue None) email_input_no_subject reserved_router))
     = ''Error: Subject is required for email messages'' \<and>
   reserved (router_env_with SendTrue (Some ''ECONNREFUSED'')) email_input reserved_router \<and>
   success (fst (sendMessage (router_env_with SendTrue (Some ''ECONNREFUSED'')) email_input reserved_router)) \<and>
   length (queues (snd (sendMessage (router_env_with SendTrue (Some ''ECONNREFUSED'')) email_input
     reserved_router))) = 1"
proof -
  let ?env = "router_env_with SendTrue None"
  let ?down = "router_env_with SendTrue (Some ''ECONNREFUSED'')"
  have k: "dedup_key ?env email_input_no_subject = ''dedup:email:a@b.com:x''"
    by (simp add: dedup_key_def fingerprint_def router_env_with_def email_input_def
        email_input_no_subject_def)
  have 1: "reserved ?env email_input_no_subject reserved_router"
    by (simp add: reserved_def k sample_router_simps)
  have v: "validateInput email_input_no_subject = Some ''Subject is required for email messages''"
    by (simp add: validateInput_def email_input_no_subject_def email_input_def)
  have 2: "message (fst (sendMessage ?env email_input_no_subject reserved_router))
     = ''Error: Subject is required for email messages''"
    by (simp add: sendMessage_invalid [OF v] error_response_def)
  have 3: "reserved ?down email_input reserved_router"
    by (simp add: reserved_def email_input_key sample_router_simps)
  have c: "checkDuplicate ?down email_input w = (False, w)" for w
    by (simp add: checkDuplicate_def redis_get_def router_env_with_simps)
  have 4: "success (fst (sendMessage ?down email_input reserved_router))"
    by (simp add: sendMessage_def email_input_valid c routeMessage_def Let_def router_env_with_simps)
  have 5: "length (queues (snd (sendMessage ?down email_input reserved_router))) = 1"
    by (simp add: sendMessage_def email_input_valid c routeMessage_def Let_def router_env_with_simps
        sendLog_def sample_router_simps split: option.splits)
  from 1 2 3 4 5 show ?thesis by blast
qed

subsection \<open>Failing open\<close>

text \<open>
  C8: when the Redis read throws, or the fingerprint is not reserved and the Redis write
  throws, \<^verbatim>\<open>checkDuplicate\<close> returns false and leaves the state as it was; a valid request
  then goes on as a non-duplicate and, if the broker accepts it, is enqueued.
\<close>

theorem checkDuplicate_fails_open:
  assumes "redis_get_error env \<noteq> None
           \<or> (\<not> reserved env input w \<and> redis_setEx_error env \<noteq> None)"
  shows "checkDuplicate env input w = (False, w) \<and>
         (validateInput input = None \<and> send_result env = SendTrue \<longrightarrow>
            success (fst (sendMessage env input w)) \<and>
            length (queues (snd (sendMessage env input w))) = length (queues w) + 1)"
proof -
  have c: "checkDuplicate env input w' = (False, w')"
    if "cache w' = cache w" "now w' = now w" for w'
    using assms that
    by (auto simp: checkDuplicate_def redis_get_def redis_setEx_def reserved_def
             split: option.splits)
  have "checkDuplicate env input w = (False, w)"
    by (rule c) simp_all
  moreover have "checkDuplicate env input (w\<lparr>uuid_count := uuid_count w + 1\<rparr>)
                   = (False, w\<lparr>uuid_count := uuid_count w + 1\<rparr>)"
    by (rule c) simp_all
  ultimately show ?thesis
    by (simp add: sendMessage_def routeMessage_def sendLog_def Let_def split: option.splits)
qed

theorem checkDuplicate_fails_open_witness:
  "redis_get_error (router_env_with SendTrue (Some ''ECONNREFUSED'')) \<noteq> None \<and>
   checkDuplicate (router_env_with SendTrue (Some ''ECONNREFUSED'')) email_input reserved_router
     = (False, reserved_router) \<and>
   success (fst (sendMessage (router_env_with SendTrue (Some ''ECONNREFUSED'')) email_input reserved_router)) \<and>
   length (queues (snd (sendMessage (router_env_with SendTrue (Some ''ECONNREFUSED'')) email_input
     reserved_router))) = 1"
proof -
  have g: "redis_get_error (router_env_with SendTrue (Some ''ECONNREFUSED'')) \<noteq> None"
    by (simp add: router_env_with_simps)
  have s: "send_result (router_env_with SendTrue (Some ''ECONNREFUSED'')) = SendTrue"
    by (simp add: router_env_with_simps)
  from checkDuplicate_fails_open [OF disjI1, OF g, of email_input reserved_router] g s
  show ?thesis
    by (simp add: email_input_valid sample_router_simps)
qed

subsection \<open>Collisions of the fingerprint\<close>

text \<open>
  C10: the requests with recipient \<^verbatim>\<open>a:b\<close>, body \<^verbatim>\<open>c\<close> and with recipient \<^verbatim>\<open>a\<close>, body
  \<^verbatim>\<open>b:c\<close> are different and have the same fingerprint, whatever the hash function. With
  Redis working and neither of them reserved, the check of the first returns false and
  the check of the second, which was never submitted, then returns true.
\<close>

theorem fingerprint_not_injective:
  assumes "redis_get_error env = None" and "redis_setEx_error env = None"
      and "\<not> reserved env colon_input_1 w"
  shows "colon_input_1 \<noteq> colon_input_2 \<and>
         fingerprint env colon_input_1 = fingerprint env colon_input_2 \<and>
         \<not> reserved env colon_input_2 w \<and>
         fst (checkDuplicate env colon_input_1 w) = False \<and>
         fst (checkDuplicate env colon_input_2 (snd (checkDuplicate env colon_input_1 w))) = True"
proof -
  have f: "fingerprint env colon_input_1 = fingerprint env colon_input_2"
    by (simp add: fingerprint_def colon_input_1_def colon_input_2_def)
  then have k: "dedup_key env colon_input_2 = dedup_key env colon_input_1"
    by (simp add: dedup_key_def)
  have d: "colon_input_1 \<noteq> colon_input_2"
    by (simp add: colon_input_1_def colon_input_2_def)
  have n: "\<not> reserved env colon_input_2 w"
    using assms(3) by (simp add: reserved_def k)
  let ?w1 = "w\<lparr>cache := (cache w)(dedup_key env colon_input_1 \<mapsto> (''1'', now w + 86400000))\<rparr>"
  have c1: "checkDuplicate env colon_input_1 w = (False, ?w1)"
    using assms by (rule checkDuplicate_fresh)
  have "reserved env colon_input_2 ?w1"
    by (simp add: reserved_def k)
  with assms(1) have "checkDuplicate env colon_input_2 ?w1 = (True, ?w1)"
    by (rule checkDuplicate_reserved)
  with c1 d f n show ?thesis
    by simp
qed

theorem fingerprint_not_injective_witness:
  "\<not> reserved (router_env_with SendTrue None) colon_input_1 fresh_router \<and>
   fst (checkDuplicate (router_env_with SendTrue None) colon_input_1 fresh_router) = False \<and>
   fst (checkDuplicate (router_env_with SendTrue None) colon_input_2
          (snd (checkDuplicate (router_env_with SendTrue None) colon_input_1 fresh_router))) = True"
proof -
  have g: "redis_get_error (router_env_with SendTrue None) = None"
    by (simp add: router_env_with_simps)
  have s: "redis_setEx_error (router_env_with SendTrue None) = None"
    by (simp add: router_env_with_simps)
  have r: "\<not> reserved (router_env_with SendTrue None) colon_input_1 fresh_router"
    by (simp add: reserved_def sample_router_simps)
  from fingerprint_not_injective [OF g s r] r show ?thesis
    by simp
qed

subsection \<open>A failed submission to the broker\<close>

text \<open>
  When \<^verbatim>\<open>sendToQueue\<close> returns false, the caller of a valid request with a fresh
  fingerprint is told that the submission failed, while the message is with the broker
  and the fingerprint is reserved.
\<close>

lemma sendMessage_backpressure:
  assumes "validateInput input = None"
      and "redis_get_error env = None" and "redis_setEx_error env = None"
      and "\<not> reserved env input w"
      and "send_result env = SendFalse"
  shows "fst (sendMessage env input w) =
           \<lparr>success = False, messageId = None,
            traceId = ''trace_'' @ uuidv4 env (uuid_count w),
            message = ''Error: Failed to send message to queue''\<rparr> \<and>
         length (queues (snd (sendMessage env input w))) = length (queues w) + 1 \<and>
         reserved env input (snd (sendMessage env input w))"
proof -
  let ?w0 = "w\<lparr>uuid_count := uuid_count w + 1\<rparr>"
  have "\<not> reserved env input ?w0"
    using assms(4) by (auto simp: reserved_def split: option.splits)
  with assms(2,3) have c: "checkDuplicate env input ?w0 =
      (False, ?w0\<lparr>cache := (cache ?w0)(dedup_key env input \<mapsto> (''1'', now ?w0 + 86400000))\<rparr>)"
    by (rule checkDuplicate_fresh)
  show ?thesis
    using assms(1,5) c
    by (simp add: sendMessage_def routeMessage_def sendLog_def Let_def error_response_def
          reserved_def split: option.splits)
qed

text \<open>
  C4, as the code has it: when the submission of a valid request with a fresh fingerprint
  throws, the answer is \<^verbatim>\<open>success: false\<close> with a null \<^verbatim>\<open>messageId\<close> and the text
  \<^verbatim>\<open>Error:\<close> followed by the message of the error, and nothing is enqueued; the
  reservation that \<^verbatim>\<open>checkDuplicate\<close> wrote before the submission is not removed, so the
  fingerprint stays reserved for its 24 hours.
\<close>

theorem routing_failure_keeps_reservation:
  assumes "validateInput input = None"
      and "redis_get_error env = None" and "redis_setEx_error env = None"
      and "\<not> reserved env input w"
      and "send_result env = SendThrows e"
  shows "fst (sendMessage env input w) =
           \<lparr>success = False, messageId = None,
            traceId = ''trace_'' @ uuidv4 env (uuid_count w),
            message = ''Error: '' @ e\<rparr> \<and>
         queues (snd (sendMessage env input w)) = queues w \<and>
         cache (snd (sendMessage env input w)) =
           (cache w)(dedup_key env input \<mapsto> (''1'', now w + 86400000)) \<and>
         reserved env input (snd (sendMessage env input w))"
proof -
  let ?w0 = "w\<lparr>uuid_count := uuid_count w + 1\<rparr>"
  have "\<not> reserved env input ?w0"
    using assms(4) by (auto simp: reserved_def split: option.splits)
  with assms(2,3) have c: "checkDuplicate env input ?w0 =
      (False, ?w0\<lparr>cache := (cache ?w0)(dedup_key env input \<mapsto> (''1'', now ?w0 + 86400000))\<rparr>)"
    by (rule checkDuplicate_fresh)
  show ?thesis
    using assms(1,5) c
    by (simp add: sendMessage_def routeMessage_def sendLog_def Let_def error_response_def
          reserved_def split: option.splits)
qed

theorem routing_failure_keeps_reservation_witness:
  "\<not> reserved (router_env_with (SendThrows ''Channel closed'') None) email_input fresh_router \<and>
   send_result (router_env_with (SendThrows ''Channel closed'') None) = SendThrows ''Channel closed'' \<and>
   fst (sendMessage (router_env_with (SendThrows ''Channel closed'') None) email_input fresh_router) =
     \<lparr>success = False, messageId = None, traceId = ''trace_0'',
      message = ''Error: Channel closed''\<rparr> \<and>
   queues (snd (sendMessage (router_env_with (SendThrows ''Channel closed'') None) email_input
     fresh_router)) = [] \<and>
   reserved (router_env_with (SendThrows ''Channel closed'') None) email_input
     (snd (sendMessage (router_env_with (SendThrows ''Channel closed'') None) email_input fresh_router))"
proof -
  let ?bad = "router_env_with (SendThrows ''Channel closed'') None"
  have g: "redis_get_error ?bad = None"
    by (simp add: router_env_with_simps)
  have s: "redis_setEx_error ?bad = None"
    by (simp add: router_env_with_simps)
  have r: "\<not> reserved ?bad email_input fresh_router"
    by (simp add: reserved_def sample_router_simps)
  have t: "send_result ?bad = SendThrows ''Channel closed''"
    by (simp add: router_env_with_simps)
  from routing_failure_keeps_reservation [OF email_input_valid g s r t] r t show ?thesis
    by (simp add: sample_router_simps router_env_with_simps)
qed

text \<open>
  The claim as stated fails: the broker throws, nothing is enqueued, and the key of the
  request is in Redis afterwards, so that the same request, submitted again to a working
  broker, is answered as a duplicate.
\<close>

theorem routing_failure_counterexample:
  "\<not> reserved (router_env_with (SendThrows ''Channel closed'') None) email_input fresh_router \<and>
   message (fst (sendMessage (router_env_with (SendThrows ''Channel closed'') None) email_input
     fresh_router)) = ''Error: Channel closed'' \<and>
   queues (snd (sendMessage (router_env_with (SendThrows ''Channel closed'') None) email_input
     fresh_router)) = [] \<and>
   cache (snd (sendMessage (router_env_with (SendThrows ''Channel closed'') None) email_input
     fresh_router)) ''dedup:email:a@b.com:x'' = Some (''1'', 86401000) \<and>
   message (fst (sendMessage (router_env_with SendTrue None) email_input
     (snd (sendMessage (router_env_with (SendThrows ''Channel closed'') None) email_input fresh_router))))
     = ''Duplicate message detected''"
proof -
  let ?bad = "router_env_with (SendThrows ''Channel closed'') None"
  let ?w' = "snd (sendMessage ?bad email_input fresh_router)"
  have r: "\<not> reserved ?bad email_input fresh_router"
    by (simp add: reserved_def sample_router_simps)
  have c: "checkDuplicate ?bad email_input (fresh_router\<lparr>uuid_count := uuid_count fresh_router + 1\<rparr>)
      = (False, fresh_router\<lparr>uuid_count := uuid_count fresh_router + 1,
           cache := [''dedup:email:a@b.com:x'' \<mapsto> (''1'', 86401000)]\<rparr>)"
    by (simp add: checkDuplicate_def redis_get_def redis_setEx_def router_env_with_simps
        email_input_key fresh_router_def)
  have m: "message (fst (sendMessage ?bad email_input fresh_router)) = ''Error: Channel closed''"
    using c
    by (simp add: sendMessage_def email_input_valid routeMessage_def router_env_with_simps Let_def
        error_response_def)
  have w': "cache ?w' = [''dedup:email:a@b.com:x'' \<mapsto> (''1'', 86401000)] \<and> queues ?w' = [] \<and>
      now ?w' = 1000"
    using c
    by (simp add: sendMessage_def email_input_valid routeMessage_def router_env_with_simps Let_def
        sendLog_def fresh_router_def split: option.splits)
  have g: "redis_get_error (router_env_with SendTrue None) = None"
    by (simp add: router_env_with_simps)
  have "reserved (router_env_with SendTrue None) email_input ?w'"
    by (simp add: reserved_def email_input_key w')
  from sendMessage_reserved [OF email_input_valid g this]
  have "message (fst (sendMessage (router_env_with SendTrue None) email_input ?w'))
          = ''Duplicate message detected''"
    by simp
  with r m w' show ?thesis
    by simp
qed

section \<open>Properties of the delivery service\<close>

subsection \<open>The retry loop\<close>

text \<open>
  A result that the handler returns, also \<^verbatim>\<open>{success: false}\<close>, ends the loop at once.
  A handler that throws is called again after the delay of the schedule, with the count
  incremented, as long as the count is below \<^verbatim>\<open>maxRetries\<close>; then the error is rethrown.
\<close>

lemma deliverWithRetry_returned:
  "h m w = (Inr result, w1) \<Longrightarrow> deliverWithRetry h m retryCount maxRetries w = (Inr result, m, w1)"
  by (simp add: deliverWithRetry.simps)

lemma deliverWithRetry_thrown:
  "h m w = (Inl err, w1) \<Longrightarrow> retryCount < maxRetries \<Longrightarrow>
   deliverWithRetry h m retryCount maxRetries w =
     deliverWithRetry h (m\<lparr>m_retryCount := Some (retryCount + 1)\<rparr>) (retryCount + 1) maxRetries
       (sleep (backoff retryCount) w1)"
  by (simp add: deliverWithRetry.simps)

lemma deliverWithRetry_exhausted:
  "h m w = (Inl err, w1) \<Longrightarrow> \<not> retryCount < maxRetries \<Longrightarrow>
   deliverWithRetry h m retryCount maxRetries w = (Inl err, m, w1)"
  by (simp add: deliverWithRetry.simps)

lemma backoff_schedule:
  "backoff 0 = 1000 \<and> backoff 1 = 2000 \<and> backoff 2 = 4000 \<and> (3 \<le> n \<longrightarrow> backoff n = 4000)"
  by (auto simp: backoff_def delays_def)

text \<open>With the store working, a handler never throws: a failed delivery is a returned value.\<close>

lemma handleDelivery_returns:
  assumes "db_error env (db_count w) = None"
  shows "\<exists>result. fst (handleDelivery env ch latency m w) = Inr result"
  using assms
  by (auto simp: handleDelivery_def simulateDelivery_def store_failure_def findOneAndUpdate_def
        sleep_def Let_def split: option.splits)

subsection \<open>The store\<close>

lemma apply_update_id [simp]: "r_messageId (apply_update u r) = u_messageId u"
  by (simp add: apply_update_def)

lemma insert_doc_id [simp]: "r_messageId (insert_doc u t) = u_messageId u"
  by (simp add: insert_doc_def)

lemma apply_update_idem: "apply_update u (apply_update u r) = apply_update u r"
  by (simp add: apply_update_def keep_def split: option.splits)

lemma apply_update_insert: "apply_update u (insert_doc u t) = insert_doc u t"
  by (simp add: apply_update_def insert_doc_def keep_def split: option.splits)

lemma upsert_twice: "upsert u t2 (upsert u t1 rs) = upsert u t1 rs"
  by (induction rs) (simp_all add: apply_update_idem apply_update_insert)

lemma ids_upsert:
  "map r_messageId (upsert u t rs) =
     (if u_messageId u \<in> set (map r_messageId rs) then map r_messageId rs
      else map r_messageId rs @ [u_messageId u])"
  by (induction rs) auto

lemma distinct_upsert:
  "distinct (map r_messageId rs) \<Longrightarrow> distinct (map r_messageId (upsert u t rs))"
  by (simp add: ids_upsert)

lemma records_of_ids: "length (records_of mid rs) = count_list (map r_messageId rs) mid"
  by (induction rs) (simp_all add: records_of_def)

lemma count_list_distinct: "distinct xs \<Longrightarrow> x \<in> set xs \<Longrightarrow> count_list xs x = 1"
  by (induction xs) auto

lemma one_record_upsert:
  assumes "distinct (map r_messageId rs)"
  shows "length (records_of (u_messageId u) (upsert u t rs)) = 1"
proof -
  have "distinct (map r_messageId (upsert u t rs))"
    using assms by (rule distinct_upsert)
  moreover have "u_messageId u \<in> set (map r_messageId (upsert u t rs))"
    by (simp add: ids_upsert)
  ultimately show ?thesis
    by (simp add: records_of_ids count_list_distinct)
qed

lemma status_of_upsert: "status_of (u_messageId u) (upsert u t rs) = Some (u_status u)"
  by (induction rs) (simp_all add: status_of_def apply_update_def insert_doc_def)

lemma statuses_upsert:
  "list_all (\<lambda>r. terminal (r_status r)) rs \<Longrightarrow> terminal (u_status u) \<Longrightarrow>
   list_all (\<lambda>r. terminal (r_status r)) (upsert u t rs)"
  by (induction rs) (simp_all add: apply_update_def insert_doc_def)

text \<open>
  Writing the same document twice is writing it once, and a store with unique message
  ids keeps exactly one record for the message id of any document written to it.
\<close>

lemma upsert_same_document:
  assumes "distinct (map r_messageId rs)" and "u_messageId u' = u_messageId u"
  shows "upsert u t2 (upsert u t1 rs) = upsert u t1 rs \<and>
         length (records_of (u_messageId u) (upsert u t1 rs)) = 1 \<and>
         length (records_of (u_messageId u) (upsert u' t2 (upsert u t1 rs))) = 1"
proof -
  have d: "distinct (map r_messageId (upsert u t1 rs))"
    using assms(1) by (rule distinct_upsert)
  from one_record_upsert [OF d, of u' t2] assms(2)
  have "length (records_of (u_messageId u) (upsert u' t2 (upsert u t1 rs))) = 1"
    by simp
  with one_record_upsert [OF assms(1), of u t1] show ?thesis
    by (simp add: upsert_twice)
qed


lemma findOne_None: "mid \<notin> set (map r_messageId rs) \<Longrightarrow> findOne mid rs = None"
  by (induction rs) auto





lemma doc_fields [simp]:
  "u_messageId (delivered_doc ch m t) = m_messageId m"
  "u_messageId (failed_doc ch m err t) = m_messageId m"
  "u_status (delivered_doc ch m t) = Delivered"
  "u_status (failed_doc ch m err t) = Failed"
  "u_updatedAt (delivered_doc ch m t) = t"
  "u_updatedAt (failed_doc ch m err t) = t"
  by (simp_all add: delivered_doc_def failed_doc_def)

lemma record_after_update [simp]:
  "r_status (apply_update u r) = u_status u" "r_status (insert_doc u c) = u_status u"
  "r_updatedAt (apply_update u r) = u_updatedAt u" "r_updatedAt (insert_doc u c) = u_updatedAt u"
  by (simp_all add: apply_update_def insert_doc_def)




subsection \<open>The stored status\<close>

lemma status_of_doc [simp]:
  "status_of (m_messageId m) (upsert (delivered_doc ch m t) c rs) = Some Delivered"
  "status_of (m_messageId m) (upsert (failed_doc ch m err t) c rs) = Some Failed"
  using status_of_upsert [of "delivered_doc ch m t" c rs]
        status_of_upsert [of "failed_doc ch m err t" c rs]
  by simp_all

lemma handleDelivery_statuses:
  assumes "list_all (\<lambda>r. terminal (r_status r)) (db w)"
  shows "list_all (\<lambda>r. terminal (r_status r)) (db (snd (handleDelivery env ch latency m w)))"
  using assms
  by (auto simp: handleDelivery_def simulateDelivery_def store_failure_def findOneAndUpdate_def
        sleep_def Let_def
        intro!: statuses_upsert split: option.splits)

text \<open>
  C3, as the code has it: a delivery attempt sets the stored status of the message to
  delivered when the delivery action succeeded and the write of the delivered record
  succeeded, and to failed when the write of the failure succeeded, that is when the
  delivery action failed or the write of the delivered record threw; this holds
  whatever was stored for the message before. When the write of the failure throws as
  well, the stored status stays as it was. And a store that holds only the statuses
  delivered and failed holds only these after the attempt, so queued and processing are
  never written.
\<close>

theorem handler_overwrites_status:
  "status_of (m_messageId m) (db (snd (handleDelivery env ch latency m w))) =
     (if db_error env (db_count w) = None
      then Some (if random_fails env (random_count w) then Failed else Delivered)
      else if \<not> random_fails env (random_count w) \<and> db_error env (db_count w + 1) = None
      then Some Failed
      else status_of (m_messageId m) (db w)) \<and>
   (list_all (\<lambda>r. terminal (r_status r)) (db w) \<longrightarrow>
      list_all (\<lambda>r. terminal (r_status r)) (db (snd (handleDelivery env ch latency m w))))"
proof -
  have "status_of (m_messageId m) (db (snd (handleDelivery env ch latency m w))) =
     (if db_error env (db_count w) = None
      then Some (if random_fails env (random_count w) then Failed else Delivered)
      else if \<not> random_fails env (random_count w) \<and> db_error env (db_count w + 1) = None
      then Some Failed
      else status_of (m_messageId m) (db w))"
    by (auto simp: handleDelivery_def simulateDelivery_def store_failure_def findOneAndUpdate_def
          sleep_def Let_def split: option.splits)
  then show ?thesis
    by (simp add: handleDelivery_statuses)
qed

text \<open>
  A message stored as failed is stored as delivered by the next, successful attempt;
  and a delivery that succeeds while the write of the delivered record throws is stored
  as failed.
\<close>

theorem handler_overwrites_status_witness:
  "list_all (\<lambda>r. terminal (r_status r)) (db after_failure) \<and>
   status_of (m_messageId routed_message) (db after_failure) = Some Failed \<and>
   status_of (m_messageId routed_message)
     (db (snd (handleDelivery env_fail_once Email 500 routed_message after_failure))) = Some Delivered \<and>
   list_all (\<lambda>r. terminal (r_status r))
     (db (snd (handleDelivery env_fail_once Email 500 routed_message after_failure))) \<and>
   status_of (m_messageId routed_message)
     (db (snd (handleDelivery env_first_write_throws Email 500 routed_message idle_consumer)))
     = Some Failed"
proof -
  have a: "db_error env_fail_once (db_count after_failure) = None"
    by (simp add: env_fail_once_def)
  have b: "random_fails env_fail_once (random_count after_failure) = False"
    by code_simp
  have c: "list_all (\<lambda>r. terminal (r_status r)) (db after_failure)"
    by code_simp
  have d: "status_of (m_messageId routed_message) (db after_failure) = Some Failed"
    by code_simp
  have e: "db_error env_first_write_throws (db_count idle_consumer) \<noteq> None"
    "db_error env_first_write_throws (db_count idle_consumer + 1) = None"
    "\<not> random_fails env_first_write_throws (random_count idle_consumer)"
    by (simp_all add: env_first_write_throws_def idle_consumer_def)
  from handler_overwrites_status [of routed_message env_fail_once Email 500 after_failure]
       handler_overwrites_status [of routed_message env_first_write_throws Email 500 idle_consumer]
       a b c d e
  show ?thesis
    by simp
qed

text \<open>
  The claim as stated fails: the first delivery of the routed message fails and stores
  the terminal status failed, the broker delivers the requeued message again, and the
  second delivery changes the stored status to delivered.
\<close>

theorem terminal_status_counterexample:
  "status_of ''msg_1'' (db idle_consumer) = None \<and>
   status_of ''msg_1'' (db (consume 1 env_fail_once (Chan Email) (Json routed_message) idle_consumer))
     = Some Failed \<and>
   status_of ''msg_1'' (db (consume 2 env_fail_once (Chan Email) (Json routed_message) idle_consumer))
     = Some Delivered \<and>
   broker (consume 2 env_fail_once (Chan Email) (Json routed_message) idle_consumer) = [Nack True, Ack]"
  by code_simp

subsection \<open>Messages that cannot be processed\<close>

text \<open>
  Every key for which a consumer is started has a handler; the only key without handler
  is \<^verbatim>\<open>dlq\<close>, for which no consumer is started.
\<close>

lemma consumers_have_handlers:
  "list_all (\<lambda>channelType. HANDLERS env channelType \<noteq> None) consumer_keys"
  by (simp add: consumer_keys_def QUEUES_keys_def)

lemma no_handler_only_dlq: "HANDLERS env channelType = None \<longleftrightarrow> channelType = Dlq"
proof (cases channelType)
  case (Chan c)
  then show ?thesis by (cases c) simp_all
next
  case Dlq
  then show ?thesis by simp
qed

text \<open>
  C5, as the code has it: for a queue message whose body does not parse, no delivery is
  attempted (no random draw, no timer, no store write), the error event is published
  when Kafka accepts it, and the message is rejected with requeue. Every key that a
  consumer passes to \<^verbatim>\<open>processMessage\<close> has a handler, so no consumed message is without
  one. Were \<^verbatim>\<open>processMessage\<close> called with a key without handler, it would attempt no
  delivery, publish the start event and the error event (and the dead-letter event when
  the retry count has reached its maximum) when Kafka accepts them, and reject the
  message with requeue exactly when its retry count is below its maximum.
\<close>

theorem unprocessable_message:
  "(let w' = processMessage env channelType (Malformed e) w
    in broker w' = broker w @ [Nack True] \<and> db w' = db w \<and> timers w' = timers w \<and>
       random_count w' = random_count w \<and>
       (publish_error env = None \<longrightarrow>
          published w' = published w @
            [delivery_event ''error'' ''Message delivery failed'' None None (Some 0) (Some e)])) \<and>
   list_all (\<lambda>key. HANDLERS env key \<noteq> None) consumer_keys \<and>
   (HANDLERS env channelType = None \<longrightarrow>
     (let w' = processMessage env channelType (Json m) w;
          retryCount = retryCount_of (Some m);
          maxRetries = maxRetries_of (Some m)
      in broker w' = broker w @ [Nack (retryCount < maxRetries)] \<and>
         db w' = db w \<and> timers w' = timers w \<and> random_count w' = random_count w \<and>
         (publish_error env = None \<longrightarrow>
            published w' = published w @
              [delivery_event ''info'' ''Started message delivery'' (Some m)
                 (Some (''subtrace_'' @ dec (clock w))) (Some retryCount) None,
               delivery_event ''error'' ''Message delivery failed'' (Some m) None (Some retryCount)
                 (Some (''No handler found for channel: '' @ key_name channelType))] @
              (if retryCount \<ge> maxRetries
               then [delivery_event ''error'' ''Max retries exceeded, moved to DLQ'' (Some m)
                       None None None]
               else []))))"
proof -
  have 1: "let w' = processMessage env channelType (Malformed e) w
    in broker w' = broker w @ [Nack True] \<and> db w' = db w \<and> timers w' = timers w \<and>
       random_count w' = random_count w \<and>
       (publish_error env = None \<longrightarrow>
          published w' = published w @
            [delivery_event ''error'' ''Message delivery failed'' None None (Some 0) (Some e)])"
    by (simp add: processMessage_def handleDeliveryError_def Let_def nack_def publish_def
        retryCount_of_def maxRetries_of_def split: option.splits)
  have 3: "HANDLERS env channelType = None \<longrightarrow>
     (let w' = processMessage env channelType (Json m) w;
          retryCount = retryCount_of (Some m);
          maxRetries = maxRetries_of (Some m)
      in broker w' = broker w @ [Nack (retryCount < maxRetries)] \<and>
         db w' = db w \<and> timers w' = timers w \<and> random_count w' = random_count w \<and>
         (publish_error env = None \<longrightarrow>
            published w' = published w @
              [delivery_event ''info'' ''Started message delivery'' (Some m)
                 (Some (''subtrace_'' @ dec (clock w))) (Some retryCount) None,
               delivery_event ''error'' ''Message delivery failed'' (Some m) None (Some retryCount)
                 (Some (''No handler found for channel: '' @ key_name channelType))] @
              (if retryCount \<ge> maxRetries
               then [delivery_event ''error'' ''Max retries exceeded, moved to DLQ'' (Some m)
                       None None None]
               else [])))"
    by (auto simp: processMessage_def handleDeliveryError_def Let_def nack_def publish_def not_le
          split: option.splits)
  from 1 consumers_have_handlers 3 show ?thesis
    by blast
qed

theorem unprocessable_message_witness:
  "publish_error env_all_fail = None \<and> HANDLERS env_all_fail Dlq = None \<and>
   broker (processMessage env_all_fail (Chan Email) (Malformed ''Unexpected token'') idle_consumer)
     = [Nack True] \<and>
   length (published
     (processMessage env_all_fail (Chan Email) (Malformed ''Unexpected token'') idle_consumer)) = 1 \<and>
   broker (processMessage env_all_fail Dlq (Json routed_message) idle_consumer) = [Nack True] \<and>
   map ev_level (published (processMessage env_all_fail Dlq (Json routed_message) idle_consumer))
     = [''info'', ''error'']"
proof -
  have p: "publish_error env_all_fail = None"
    by (simp add: env_all_fail_def)
  have h: "HANDLERS env_all_fail Dlq = None"
    by simp
  have b: "broker idle_consumer = []" "published idle_consumer = []"
    by (simp_all add: idle_consumer_def)
  have r: "retryCount_of (Some routed_message) < maxRetries_of (Some routed_message)"
    by (simp add: retryCount_of_def maxRetries_of_def routed_message_def)
  from unprocessable_message
    [of env_all_fail "Chan Email" "''Unexpected token''" idle_consumer routed_message]
  have 1: "broker (processMessage env_all_fail (Chan Email) (Malformed ''Unexpected token'')
              idle_consumer) = [Nack True] \<and>
           length (published (processMessage env_all_fail (Chan Email)
              (Malformed ''Unexpected token'') idle_consumer)) = 1"
    using p b by (simp add: Let_def)
  from unprocessable_message [of env_all_fail Dlq "''Unexpected token''" idle_consumer routed_message]
  have 2: "broker (processMessage env_all_fail Dlq (Json routed_message) idle_consumer) = [Nack True] \<and>
     map ev_level (published (processMessage env_all_fail Dlq (Json routed_message) idle_consumer))
     = [''info'', ''error'']"
    using h p b r by (simp add: Let_def delivery_event_def)
  from 1 2 p h show ?thesis by simp
qed

text \<open>
  The claim as stated fails: the unparseable message is rejected with requeue, and the
  broker delivers it again and again.
\<close>

theorem unprocessable_message_counterexample:
  "broker (processMessage env_all_fail (Chan Email) (Malformed ''Unexpected token'') idle_consumer)
     = [Nack True] \<and>
   broker (consume 3 env_all_fail (Chan Email) (Malformed ''Unexpected token'') idle_consumer)
     = [Nack True, Nack True, Nack True]"
  by code_simp

subsection \<open>A failed delivery\<close>

text \<open>
  With the store working, a failed delivery is stored and returned by the handler, so the
  retry loop ends after one attempt: no backoff delay is awaited, and the message is
  rejected with requeue when its retry count, which nothing has incremented, is below
  its maximum.
\<close>

lemma publish_fields [simp]:
  "db (publish env e w) = db w" "broker (publish env e w) = broker w"
  "timers (publish env e w) = timers w" "clock (publish env e w) = clock w"
  "random_count (publish env e w) = random_count w" "db_count (publish env e w) = db_count w"
  by (simp_all add: publish_def split: option.splits)

lemma handleDelivery_stored_failure:
  assumes "db_error env (db_count w) = None" and "random_fails env (random_count w)"
  shows "\<exists>err w'. handleDelivery env ch latency m w = (Inr (DeliveryFailed err), w') \<and> err \<noteq> [] \<and>
           broker w' = broker w \<and> timers w' = timers w @ [latency] \<and>
           random_count w' = random_count w + 1 \<and> db_count w' = db_count w + 1"
  using assms
  by (simp add: handleDelivery_def simulateDelivery_def store_failure_def findOneAndUpdate_def
        sleep_def Let_def)

lemma processMessage_stored_failure:
  assumes "db_error env (db_count w) = None" and "random_fails env (random_count w)"
  shows "broker (processMessage env (Chan ch) (Json m) w) =
           broker w @ [Nack (retryCount_of (Some m) < maxRetries_of (Some m))] \<and>
         length (timers (processMessage env (Chan ch) (Json m) w)) = length (timers w) + 1 \<and>
         random_count (processMessage env (Chan ch) (Json m) w) = random_count w + 1 \<and>
         db_count (processMessage env (Chan ch) (Json m) w) = db_count w + 1"
proof -
  let ?w1 = "publish env (delivery_event ''info'' ''Started message delivery'' (Some m)
                (Some (''subtrace_'' @ dec (clock w))) (Some (retryCount_of (Some m))) None) w"
  have a: "db_error env (db_count ?w1) = None" "random_fails env (random_count ?w1)"
    using assms by simp_all
  obtain latency where h: "HANDLERS env (Chan ch) = Some (handleDelivery env ch latency)"
    by (cases ch) (simp_all add: handleEmailDelivery_def handleSMSDelivery_def handleWhatsAppDelivery_def)
  from handleDelivery_stored_failure [OF a, of ch latency m] obtain err w' where
    r: "handleDelivery env ch latency m ?w1 = (Inr (DeliveryFailed err), w')" and
    e: "err \<noteq> []" and
    f: "broker w' = broker w" "timers w' = timers w @ [latency]"
       "random_count w' = random_count w + 1" "db_count w' = db_count w + 1"
    by auto
  have d: "deliverWithRetry (handleDelivery env ch latency) m (retryCount_of (Some m))
             (maxRetries_of (Some m)) ?w1 = (Inr (DeliveryFailed err), m, w')"
    using r by (simp add: deliverWithRetry.simps)
  show ?thesis
    using e f d
    by (simp add: processMessage_def Let_def h handleDeliveryError_def nack_def not_le)
qed

lemma never_dead_lettered:
  assumes "\<And>k. db_error env k = None" and "\<And>k. random_fails env k"
      and "retryCount_of (Some m) < maxRetries_of (Some m)"
  shows "broker (consume n env (Chan ch) (Json m) w) = broker w @ replicate n (Nack True)"
proof (induction n arbitrary: w)
  case 0
  then show ?case by simp
next
  case (Suc n)
  let ?w' = "processMessage env (Chan ch) (Json m) w"
  from processMessage_stored_failure [of env w ch m] assms
  have b: "broker ?w' = broker w @ [Nack True]"
    by simp
  then have "requeued ?w'"
    by (simp add: requeued_def)
  with Suc.IH [of ?w'] b show ?case
    by (simp add: Let_def replicate_append_same)
qed

text \<open>
  The loop retries with backoff only when the handler throws, that is when the store is
  down: then the routed message is attempted four times, with the delays 1000, 2000 and
  4000 between the simulated latencies, and is rejected without requeue; no status is
  stored.
\<close>

lemma handleDelivery_store_down:
  assumes "random_fails env (random_count w)"
      and "db_error env (db_count w) = Some e"
  shows "handleDelivery env ch latency m w =
           (Inl e, w\<lparr>timers := timers w @ [latency], clock := clock w + latency,
                     random_count := random_count w + 1, db_count := db_count w + 1\<rparr>)"
  using assms
  by (simp add: handleDelivery_def simulateDelivery_def store_failure_def findOneAndUpdate_def
        sleep_def Let_def)

lemma deliverWithRetry_store_down:
  assumes "\<And>k. random_fails env k" and "\<And>k. db_error env k = Some e"
  shows "deliverWithRetry (handleDelivery env ch latency) m 0 3 w =
     (Inl e, m\<lparr>m_retryCount := Some 3\<rparr>,
      w\<lparr>timers := timers w @ [latency, 1000, latency, 2000, latency, 4000, latency],
        clock := clock w + 4 * latency + 7000,
        random_count := random_count w + 4, db_count := db_count w + 4\<rparr>)"
  by (simp add: deliverWithRetry.simps [of _ _ 0] deliverWithRetry.simps [of _ _ 1]
        deliverWithRetry.simps [of _ _ 2] deliverWithRetry.simps [of _ _ 3]
        handleDelivery_store_down assms sleep_def backoff_def delays_def)

lemma store_down_retries_with_backoff:
  "broker (processMessage env_store_down (Chan Email) (Json routed_message) idle_consumer)
     = [Nack False] \<and>
   timers (processMessage env_store_down (Chan Email) (Json routed_message) idle_consumer)
     = [500, 1000, 500, 2000, 500, 4000, 500] \<and>
   db (processMessage env_store_down (Chan Email) (Json routed_message) idle_consumer) = []"
proof -
  have r: "\<And>k. random_fails env_store_down k"
    by (simp add: env_store_down_def)
  have d: "\<And>k. db_error env_store_down k = Some ''store down''"
    by (simp add: env_store_down_def)
  have p: "publish_error env_store_down = None"
    by (simp add: env_store_down_def)
  show ?thesis
    by (simp add: processMessage_def Let_def handleEmailDelivery_def
        deliverWithRetry_store_down [OF r d] handleDeliveryError_def retryCount_of_def
        maxRetries_of_def nack_def publish_def p routed_message_def idle_consumer_def)
qed

text \<open>
  C1 at a failing input: the routed message (retry count 0 of 3) is consumed from the
  email queue, the delivery action fails once and the store works. The only timer is
  the simulated latency of 500 ms: no backoff delay is awaited. The delivery action is
  run once, and the message is rejected with requeue.
\<close>

theorem failed_delivery_requeued_without_backoff:
  "timers (processMessage env_fail_once (Chan Email) (Json routed_message) idle_consumer) = [500] \<and>
   random_count (processMessage env_fail_once (Chan Email) (Json routed_message) idle_consumer) = 1 \<and>
   broker (processMessage env_fail_once (Chan Email) (Json routed_message) idle_consumer)
     = [Nack True]"
  by code_simp

text \<open>
  C2 at a failing input: the delivery action fails on every attempt and the store
  works. The routed message is delivered four times; each delivery makes one attempt,
  stores the status failed and rejects the message with requeue, the fourth as well: it
  is not rejected without requeue, and no backoff delay is awaited in between.
\<close>

theorem four_failures_not_dead_lettered:
  "broker (consume 4 env_all_fail (Chan Email) (Json routed_message) idle_consumer)
     = [Nack True, Nack True, Nack True, Nack True] \<and>
   random_count (consume 4 env_all_fail (Chan Email) (Json routed_message) idle_consumer) = 4 \<and>
   timers (consume 4 env_all_fail (Chan Email) (Json routed_message) idle_consumer)
     = [500, 500, 500, 500] \<and>
   status_of ''msg_1'' (db (consume 4 env_all_fail (Chan Email) (Json routed_message) idle_consumer))
     = Some Failed"
  by code_simp

end
